theory Spec2Isabelle
  imports Complex_Main "HOL-Library.Sublist" "HOL-Library.Char_ord" "HOL-Library.List_Lexorder"
begin

section \<open>JavaScript numbers\<close>

text \<open>
  A JavaScript \<^verbatim>\<open>number\<close> that is only ever compared: either a finite value or
  \<^verbatim>\<open>NaN\<close>, for which every comparison is false.
\<close>

datatype number = Num real | NaN

fun ge_num :: "number \<Rightarrow> real \<Rightarrow> bool" where
  "ge_num (Num x) c = (c \<le> x)"
| "ge_num NaN c = False"

fun le_num :: "number \<Rightarrow> real \<Rightarrow> bool" where
  "le_num (Num x) c = (x \<le> c)"
| "le_num NaN c = False"

fun lt_num :: "number \<Rightarrow> real \<Rightarrow> bool" where
  "lt_num (Num x) c = (x < c)"
| "lt_num NaN c = False"

fun eq_num :: "number \<Rightarrow> real \<Rightarrow> bool" where
  "eq_num (Num x) c = (x = c)"
| "eq_num NaN c = False"

section \<open>Score display helpers (types/recommendation)\<close>

datatype score_tier = EXCELLENT | GOOD | FAIR | POOR

fun MATCH_SCORE_THRESHOLDS :: "score_tier \<Rightarrow> real" where
  "MATCH_SCORE_THRESHOLDS EXCELLENT = 80"
| "MATCH_SCORE_THRESHOLDS GOOD = 60"
| "MATCH_SCORE_THRESHOLDS FAIR = 40"
| "MATCH_SCORE_THRESHOLDS POOR = 20"

fun MATCH_SCORE_COLORS :: "score_tier \<Rightarrow> string" where
  "MATCH_SCORE_COLORS EXCELLENT = ''text-green-600 bg-green-50 border-green-200''"
| "MATCH_SCORE_COLORS GOOD = ''text-blue-600 bg-blue-50 border-blue-200''"
| "MATCH_SCORE_COLORS FAIR = ''text-yellow-600 bg-yellow-50 border-yellow-200''"
| "MATCH_SCORE_COLORS POOR = ''text-gray-600 bg-gray-50 border-gray-200''"

definition getScoreColor :: "number \<Rightarrow> string" where
  "getScoreColor score =
     (if ge_num score (MATCH_SCORE_THRESHOLDS EXCELLENT) then MATCH_SCORE_COLORS EXCELLENT
      else if ge_num score (MATCH_SCORE_THRESHOLDS GOOD) then MATCH_SCORE_COLORS GOOD
      else if ge_num score (MATCH_SCORE_THRESHOLDS FAIR) then MATCH_SCORE_COLORS FAIR
      else MATCH_SCORE_COLORS POOR)"

definition getScoreLabel :: "number \<Rightarrow> string" where
  "getScoreLabel score =
     (if ge_num score (MATCH_SCORE_THRESHOLDS EXCELLENT) then ''Excellent Match''
      else if ge_num score (MATCH_SCORE_THRESHOLDS GOOD) then ''Good Match''
      else if ge_num score (MATCH_SCORE_THRESHOLDS FAIR) then ''Fair Match''
      else ''Low Match'')"

definition getScoreBadgeClass :: "number \<Rightarrow> string" where
  "getScoreBadgeClass score =
     (let baseClasses =
        ''inline-flex items-center px-2.5 py-0.5 rounded-full text-xs font-medium border'';
          colorClass = getScoreColor score
      in baseClasses @ '' '' @ colorClass)"

text \<open>
  The category a label names, and its height: the vocabulary of the statement
  about \<open>getScoreLabel\<close>, not part of the program.
\<close>

definition label_tier :: "string \<Rightarrow> score_tier option" where
  "label_tier l =
     (if l = ''Excellent Match'' then Some EXCELLENT
      else if l = ''Good Match'' then Some GOOD
      else if l = ''Fair Match'' then Some FAIR
      else if l = ''Low Match'' then Some POOR
      else None)"

fun tier_height :: "score_tier option \<Rightarrow> nat" where
  "tier_height (Some EXCELLENT) = 4"
| "tier_height (Some GOOD) = 3"
| "tier_height (Some FAIR) = 2"
| "tier_height (Some POOR) = 1"
| "tier_height None = 0"

section \<open>JavaScript truthiness of optional fields\<close>

text \<open>
  An optional field is \<open>None\<close> when it is \<^verbatim>\<open>undefined\<close>. A string is truthy when
  it is present and not empty; an array is truthy whenever it is present.
\<close>

fun truthy_string :: "string option \<Rightarrow> bool" where
  "truthy_string None = False"
| "truthy_string (Some s) = (s \<noteq> [])"

fun truthy_array :: "'a list option \<Rightarrow> bool" where
  "truthy_array None = False"
| "truthy_array (Some xs) = True"

section \<open>Deadline line of RecommendationCard\<close>

record Tender =
  tender_id :: string
  title :: string
  deadline :: "string option"

record TenderRecommendation =
  tender :: Tender
  match_score :: number
  semantic_similarity :: number
  days_until_deadline :: number

datatype deadline_text = Expired | Due_today | Due_tomorrow | Days_left number

record deadline_line =
  line_class :: string
  line_text :: deadline_text
  line_marker :: bool

text \<open>
  The block under the comment \<^verbatim>\<open>Deadline\<close> of \<^verbatim>\<open>RecommendationCard\<close>: nothing is
  rendered without a truthy \<^verbatim>\<open>tender.deadline\<close>; otherwise the class of the line,
  its text, and whether the lightning span (the urgency marker) is rendered.
\<close>

definition RecommendationCard_deadline :: "TenderRecommendation \<Rightarrow> deadline_line option" where
  "RecommendationCard_deadline recommendation =
     (let d = days_until_deadline recommendation;
          isUrgent = le_num d 7;
          isExpired = lt_num d 0
      in if truthy_string (deadline (tender recommendation)) then
           Some \<lparr> line_class =
                    (if isExpired then ''text-red-600''
                     else if isUrgent then ''text-orange-600 font-medium''
                     else []),
                  line_text =
                    (if isExpired then Expired
                     else if eq_num d 0 then Due_today
                     else if eq_num d 1 then Due_tomorrow
                     else Days_left d),
                  line_marker = (isUrgent \<and> \<not> isExpired) \<rparr>
         else None)"

definition urgency_marker_shown :: "TenderRecommendation \<Rightarrow> bool" where
  "urgency_marker_shown recommendation =
     (case RecommendationCard_deadline recommendation of
        None \<Rightarrow> False
      | Some l \<Rightarrow> line_marker l)"

text \<open>The interval of the specification's urgency rule, \<open>[1,7]\<close>.\<close>

definition spec_urgency_window :: "number \<Rightarrow> bool" where
  "spec_urgency_window d = (ge_num d 1 \<and> le_num d 7)"

section \<open>Step 1 of the profile setup wizard\<close>

text \<open>\<^verbatim>\<open>Partial<CompanyProfileCreateStep1>\<close>: every field may be undefined.\<close>

record Step1Data =
  primary_sector :: "string option"
  active_sectors :: "string list option"
  sub_sectors :: "string list option"
  preferred_regions :: "string list option"
  step1_keywords :: "string list option"

datatype validation_field = ACTIVE_SECTORS | KEYWORDS | REGIONS

fun VALIDATION_MIN :: "validation_field \<Rightarrow> nat" where
  "VALIDATION_MIN ACTIVE_SECTORS = 1"
| "VALIDATION_MIN KEYWORDS = 3"
| "VALIDATION_MIN REGIONS = 1"

fun VALIDATION_MAX :: "validation_field \<Rightarrow> nat" where
  "VALIDATION_MAX ACTIVE_SECTORS = 5"
| "VALIDATION_MAX KEYWORDS = 10"
| "VALIDATION_MAX REGIONS = 5"

text \<open>
  The conjunction of \<^verbatim>\<open>isStep1Valid\<close>, operand by operand; \<^verbatim>\<open>.length\<close> is read
  only behind the truthiness test of its array.
\<close>

definition isStep1Valid :: "Step1Data \<Rightarrow> bool" where
  "isStep1Valid step1Data =
     (truthy_string (primary_sector step1Data) \<and>
      (case active_sectors step1Data of
         None \<Rightarrow> False
       | Some a \<Rightarrow>
           VALIDATION_MIN ACTIVE_SECTORS \<le> length a \<and> length a \<le> VALIDATION_MAX ACTIVE_SECTORS) \<and>
      truthy_array (sub_sectors step1Data) \<and>
      (case preferred_regions step1Data of
         None \<Rightarrow> False
       | Some r \<Rightarrow> VALIDATION_MIN REGIONS \<le> length r) \<and>
      (case step1_keywords step1Data of
         None \<Rightarrow> False
       | Some k \<Rightarrow>
           VALIDATION_MIN KEYWORDS \<le> length k \<and> length k \<le> VALIDATION_MAX KEYWORDS))"

text \<open>The Tier-1 bounds as the specification words them.\<close>

definition spec_tier1_bounds :: "Step1Data \<Rightarrow> bool" where
  "spec_tier1_bounds d =
     (truthy_string (primary_sector d) \<and>
      (case active_sectors d of None \<Rightarrow> False | Some a \<Rightarrow> 1 \<le> length a \<and> length a \<le> 5) \<and>
      (case preferred_regions d of None \<Rightarrow> False | Some r \<Rightarrow> 1 \<le> length r \<and> length r \<le> 5) \<and>
      (case step1_keywords d of None \<Rightarrow> False | Some k \<Rightarrow> 3 \<le> length k \<and> length k \<le> 10) \<and>
      sub_sectors d \<noteq> None)"

section \<open>Match reasons: the tag type and its display tables\<close>

text \<open>
  The members of the string-literal union that is the type of \<^verbatim>\<open>MatchReason.type\<close>.
\<close>

definition MatchReason_type :: "string list" where
  "MatchReason_type =
     [''semantic_match'', ''sector_match'', ''subsector_match'', ''keyword_match'',
      ''region_match'', ''budget_match'', ''urgency'']"

text \<open>The icons are emoji; each is written as its UTF-8 bytes.\<close>

definition REASON_TYPE_ICONS :: "(string \<times> string) list" where
  "REASON_TYPE_ICONS =
     [(''semantic_match'', [CHR 0xF0, CHR 0x9F, CHR 0xA7, CHR 0xA0]),
      (''sector_match'', [CHR 0xF0, CHR 0x9F, CHR 0x8F, CHR 0xA2]),
      (''subsector_match'', [CHR 0xF0, CHR 0x9F, CHR 0x8E, CHR 0xAF]),
      (''keyword_match'', [CHR 0xF0, CHR 0x9F, CHR 0x94, CHR 0x91]),
      (''region_match'', [CHR 0xF0, CHR 0x9F, CHR 0x93, CHR 0x8D]),
      (''budget_match'', [CHR 0xF0, CHR 0x9F, CHR 0x92, CHR 0xB0]),
      (''urgency'', [CHR 0xE2, CHR 0x9A, CHR 0xA1])]"

definition REASON_TYPE_LABELS :: "(string \<times> string) list" where
  "REASON_TYPE_LABELS =
     [(''semantic_match'', ''Semantic Match''),
      (''sector_match'', ''Sector Match''),
      (''subsector_match'', ''Specialization''),
      (''keyword_match'', ''Keyword Match''),
      (''region_match'', ''Region Match''),
      (''budget_match'', ''Budget Fit''),
      (''urgency'', ''Urgent Deadline'')]"

record MatchReason =
  reason_type :: string
  category :: string
  reason_text :: string
  weight :: real

text \<open>
  One pill of \<^verbatim>\<open>CompactView\<close>: the two table lookups (\<open>None\<close> is \<^verbatim>\<open>undefined\<close>,
  which renders as nothing) and, when weights are shown, \<^verbatim>\<open>Math.round(weight)\<close>.
\<close>

record pill =
  pill_icon :: "string option"
  pill_label :: "string option"
  pill_points :: "int option"

definition Math_round :: "real \<Rightarrow> int" where
  "Math_round x = \<lfloor>x + 1 / 2\<rfloor>"

definition CompactView :: "MatchReason list \<Rightarrow> bool \<Rightarrow> pill list" where
  "CompactView reasons showWeights =
     map (\<lambda>r. \<lparr> pill_icon = map_of REASON_TYPE_ICONS (reason_type r),
                 pill_label = map_of REASON_TYPE_LABELS (reason_type r),
                 pill_points = (if showWeights then Some (Math_round (weight r)) else None) \<rparr>)
       reasons"

text \<open>The tag set of the specification's MatchReason.\<close>

definition spec_MatchReason_tags :: "string list" where
  "spec_MatchReason_tags =
     [''semantic_match'', ''sector_match'', ''subsector_match'', ''keyword_match'',
      ''region_match'', ''budget_match'', ''urgency'', ''certification_match'',
      ''language_match'', ''deadline_match'', ''popularity_boost'']"

section \<open>HTTP requests issued through axios\<close>

datatype http_method = GET | POST

text \<open>
  A request as the client hands it to axios. The query string of a URL is kept as the
  entries of its \<^verbatim>\<open>URLSearchParams\<close>, in the order they were appended.
\<close>

record 'b request =
  req_method :: http_method
  req_url :: string
  req_params :: "(string \<times> string) list"
  req_body :: "'b option"
  req_headers :: "(string \<times> string) list"

record 'a response =
  status :: nat
  data :: 'a

text \<open>
  What a rejected promise carries: an instance of \<^verbatim>\<open>Error\<close> with its message, or
  any other thrown value.
\<close>

datatype thrown = Error_instance string | Other_value string

type_synonym ('b, 'a) server = "'b request \<Rightarrow> thrown + 'a response"

text \<open>
  One call of axios: the request reaches the server, which resolves or rejects; the
  log keeps every request issued.
\<close>

definition axios_call ::
  "('b, 'a) server \<Rightarrow> 'b request \<Rightarrow> 'b request list \<Rightarrow> (thrown + 'a response) \<times> 'b request list" where
  "axios_call server rq sent = (server rq, sent @ [rq])"

record env =
  API_URL :: string
  window_defined :: bool
  access_token :: "string option"

definition getAuthHeaders :: "env \<Rightarrow> (string \<times> string) list" where
  "getAuthHeaders e =
     (if window_defined e then
        (case access_token e of
           None \<Rightarrow> []
         | Some token \<Rightarrow> if token \<noteq> [] then [(''Authorization'', ''Bearer '' @ token)] else [])
      else [])"

section \<open>Decimal rendering of integers\<close>

text \<open>
  \<^verbatim>\<open>Number.prototype.toString\<close> on an integer (of magnitude below \<open>10\<^sup>2\<^sup>1\<close>, where
  JavaScript still writes every digit).
\<close>

definition digit_char :: "nat \<Rightarrow> char" where
  "digit_char d = char_of (48 + d)"

function string_of_nat :: "nat \<Rightarrow> string" where
  "string_of_nat n =
     (if n < 10 then [digit_char n] else string_of_nat (n div 10) @ [digit_char (n mod 10)])"
  by pat_completeness auto
termination
  by (relation "measure id") auto

definition toString :: "int \<Rightarrow> string" where
  "toString i = (if i < 0 then CHR ''-'' # string_of_nat (nat (- i)) else string_of_nat (nat i))"

section \<open>Recommendations API client (lib/recommendations)\<close>

record RecommendationFilters =
  limit :: "int option"
  min_score :: "int option"
  days_ahead :: "int option"
  sectors :: "string list option"
  regions :: "string list option"

definition append_param :: "(string \<times> string) list \<Rightarrow> string \<Rightarrow> string \<Rightarrow> (string \<times> string) list" where
  "append_param params name v = params @ [(name, v)]"

text \<open>\<^verbatim>\<open>xs.forEach(s => params.append(name, s))\<close>\<close>

fun forEach_append :: "(string \<times> string) list \<Rightarrow> string \<Rightarrow> string list \<Rightarrow> (string \<times> string) list" where
  "forEach_append params name [] = params"
| "forEach_append params name (s # ss) = forEach_append (append_param params name s) name ss"

text \<open>\<^verbatim>\<open>URLSearchParams.getAll\<close>: the values appended under a name, in order.\<close>

definition getAll :: "(string \<times> string) list \<Rightarrow> string \<Rightarrow> string list" where
  "getAll params name = map snd (filter (\<lambda>p. fst p = name) params)"

text \<open>
  The destructuring defaults of \<^verbatim>\<open>getRecommendations\<close> apply to an undefined field
  only; then the parameters are appended in the order of the source.
\<close>

definition getRecommendations_params :: "RecommendationFilters \<Rightarrow> (string \<times> string) list" where
  "getRecommendations_params filters =
     (let limit' = (case limit filters of None \<Rightarrow> 20 | Some l \<Rightarrow> l);
          days_ahead' = (case days_ahead filters of None \<Rightarrow> 7 | Some d \<Rightarrow> d);
          params0 = [];
          params1 = append_param params0 ''limit'' (toString limit');
          params2 = (case min_score filters of
                       None \<Rightarrow> params1
                     | Some m \<Rightarrow> append_param params1 ''min_score'' (toString m));
          params3 = append_param params2 ''days_ahead'' (toString days_ahead');
          params4 = (case sectors filters of
                       None \<Rightarrow> params3
                     | Some ss \<Rightarrow>
                         if length ss > 0 then forEach_append params3 ''sectors'' ss else params3);
          params5 = (case regions filters of
                       None \<Rightarrow> params4
                     | Some rs \<Rightarrow>
                         if length rs > 0 then forEach_append params4 ''regions'' rs else params4)
      in params5)"

definition getRecommendations_request :: "env \<Rightarrow> RecommendationFilters \<Rightarrow> unit request" where
  "getRecommendations_request e filters =
     \<lparr> req_method = GET,
       req_url = API_URL e @ ''/recommendations'',
       req_params = getRecommendations_params filters,
       req_body = None,
       req_headers = getAuthHeaders e \<rparr>"

definition getRecommendations ::
  "(unit, 'a) server \<Rightarrow> env \<Rightarrow> RecommendationFilters \<Rightarrow> unit request list
     \<Rightarrow> (thrown + 'a) \<times> unit request list" where
  "getRecommendations server e filters sent =
     (case axios_call server (getRecommendations_request e filters) sent of
        (Inl err, sent') \<Rightarrow> (Inl err, sent')
      | (Inr response, sent') \<Rightarrow> (Inr (data response), sent'))"

datatype InteractionType = view | save | dismiss | apply_tender | rate_positive | rate_negative

record FeedbackRequest =
  interaction_type :: InteractionType
  feedback_reason :: "string option"
  time_spent_seconds :: "int option"

record FeedbackResponse =
  success :: bool
  interaction_id :: string
  message :: string

definition submitFeedback_request :: "env \<Rightarrow> string \<Rightarrow> FeedbackRequest \<Rightarrow> FeedbackRequest request" where
  "submitFeedback_request e tenderId feedback =
     \<lparr> req_method = POST,
       req_url = API_URL e @ ''/recommendations/feedback/'' @ tenderId,
       req_params = [],
       req_body = Some feedback,
       req_headers = getAuthHeaders e \<rparr>"

definition submitFeedback ::
  "(FeedbackRequest, 'a) server \<Rightarrow> env \<Rightarrow> string \<Rightarrow> FeedbackRequest \<Rightarrow> FeedbackRequest request list
     \<Rightarrow> (thrown + 'a) \<times> FeedbackRequest request list" where
  "submitFeedback server e tenderId feedback sent =
     (case axios_call server (submitFeedback_request e tenderId feedback) sent of
        (Inl err, sent') \<Rightarrow> (Inl err, sent')
      | (Inr response, sent') \<Rightarrow> (Inr (data response), sent'))"

section \<open>Feedback hooks (hooks/useRecommendations)\<close>

text \<open>
  The React state the two hooks keep, and the requests issued so far. An asynchronous
  function is run to completion: it takes the state and returns what its promise
  settles with, together with the state after its last update.
\<close>

record hooks_state =
  loading :: bool
  error :: "thrown option"
  savedTenders :: "string set"
  dismissedTenders :: "string set"
  requests :: "FeedbackRequest request list"

text \<open>\<^verbatim>\<open>err instanceof Error ? err : new Error('Failed to submit feedback')\<close>\<close>

fun as_Error :: "thrown \<Rightarrow> string \<Rightarrow> thrown" where
  "as_Error (Error_instance m) fallback = Error_instance m"
| "as_Error (Other_value v) fallback = Error_instance fallback"

definition useFeedback_submitFeedback ::
  "(FeedbackRequest, 'a) server \<Rightarrow> env \<Rightarrow> string \<Rightarrow> InteractionType \<Rightarrow> string option \<Rightarrow> int option
     \<Rightarrow> hooks_state \<Rightarrow> (thrown + 'a) \<times> hooks_state" where
  "useFeedback_submitFeedback server e tenderId interactionType feedbackReason timeSpentSeconds st =
     (let st1 = st\<lparr> loading := True \<rparr>;
          st2 = st1\<lparr> error := None \<rparr>;
          feedback = \<lparr> interaction_type = interactionType,
                       feedback_reason = feedbackReason,
                       time_spent_seconds = timeSpentSeconds \<rparr>
      in case submitFeedback server e tenderId feedback (requests st2) of
           (Inr response, sent') \<Rightarrow>
             (Inr response, st2\<lparr> requests := sent', loading := False \<rparr>)
         | (Inl err, sent') \<Rightarrow>
             (let error' = as_Error err ''Failed to submit feedback''
              in (Inl error', st2\<lparr> requests := sent', error := Some error', loading := False \<rparr>)))"

definition saveTender ::
  "(FeedbackRequest, 'a) server \<Rightarrow> env \<Rightarrow> string \<Rightarrow> hooks_state \<Rightarrow> (thrown + unit) \<times> hooks_state" where
  "saveTender server e tenderId st =
     (let st1 = st\<lparr> savedTenders := insert tenderId (savedTenders st) \<rparr>
      in case useFeedback_submitFeedback server e tenderId save None None st1 of
           (Inr response, st2) \<Rightarrow> (Inr (), st2)
         | (Inl err, st2) \<Rightarrow>
             (Inl err, st2\<lparr> savedTenders := savedTenders st2 - {tenderId} \<rparr>))"

definition unsaveTender :: "string \<Rightarrow> hooks_state \<Rightarrow> hooks_state" where
  "unsaveTender tenderId st = st\<lparr> savedTenders := savedTenders st - {tenderId} \<rparr>"

definition dismissTender ::
  "(FeedbackRequest, 'a) server \<Rightarrow> env \<Rightarrow> string \<Rightarrow> string option \<Rightarrow> hooks_state
     \<Rightarrow> (thrown + unit) \<times> hooks_state" where
  "dismissTender server e tenderId reason st =
     (let st1 = st\<lparr> dismissedTenders := insert tenderId (dismissedTenders st) \<rparr>
      in case useFeedback_submitFeedback server e tenderId dismiss reason None st1 of
           (Inr response, st2) \<Rightarrow> (Inr (), st2)
         | (Inl err, st2) \<Rightarrow>
             (Inl err, st2\<lparr> dismissedTenders := dismissedTenders st2 - {tenderId} \<rparr>))"

section \<open>View tracking (useInteractionTracking)\<close>


















section \<open>Error messages (lib/error-utils)\<close>

text \<open>
  The argument of \<^verbatim>\<open>getErrorMessage\<close> has type \<^verbatim>\<open>any\<close>: a JavaScript value,
  here plain data (no getters, no proxies).
\<close>

datatype jsval =
    JUndefined
  | JNull
  | JBool bool
  | JNum number
  | JStr string
  | JArr "jsval list"
  | JObj "(string \<times> jsval) list"

datatype js_exn = TypeError

fun nullish :: "jsval \<Rightarrow> bool" where
  "nullish JUndefined = True"
| "nullish JNull = True"
| "nullish v = False"

fun truthy :: "jsval \<Rightarrow> bool" where
  "truthy JUndefined = False"
| "truthy JNull = False"
| "truthy (JBool b) = b"
| "truthy (JNum (Num x)) = (x \<noteq> 0)"
| "truthy (JNum NaN) = False"
| "truthy (JStr s) = (s \<noteq> [])"
| "truthy (JArr xs) = True"
| "truthy (JObj kvs) = True"

fun is_string :: "jsval \<Rightarrow> bool" where
  "is_string (JStr s) = True"
| "is_string v = False"

text \<open>
  \<^verbatim>\<open>v?.name\<close>: undefined on null and undefined, the property otherwise. The names
  read here (response, data, detail, message, msg) are not properties of any
  primitive or array, so only an object can hold them.
\<close>

fun opt_member :: "jsval \<Rightarrow> string \<Rightarrow> jsval" where
  "opt_member (JObj kvs) name = (case map_of kvs name of None \<Rightarrow> JUndefined | Some v \<Rightarrow> v)"
| "opt_member v name = JUndefined"

text \<open>\<^verbatim>\<open>v.name\<close>: a TypeError on null and undefined.\<close>

definition member :: "jsval \<Rightarrow> string \<Rightarrow> js_exn + jsval" where
  "member v name = (if nullish v then Inl TypeError else Inr (opt_member v name))"

definition fallback_message :: string where
  "fallback_message = ''An error occurred. Please try again.''"

text \<open>
  \<^verbatim>\<open>getErrorMessage\<close>, test by test. The first read of \<^verbatim>\<open>error.response\<close> throws on a
  nullish \<^verbatim>\<open>error\<close>; past it, every unguarded chain of the source repeats a chain
  that was just found to hold a value, and cannot throw, except \<^verbatim>\<open>errors[0].msg\<close>.
\<close>

definition getErrorMessage :: "jsval \<Rightarrow> js_exn + jsval" where
  "getErrorMessage error_arg =
     (case member error_arg ''response'' of
        Inl ex \<Rightarrow> Inl ex
      | Inr response_v \<Rightarrow>
          (let data_v = opt_member response_v ''data'';
               detail = opt_member data_v ''detail'';
               after_detail =
                 (if is_string detail then Inr detail
                  else if truthy (opt_member data_v ''message'') then Inr (opt_member data_v ''message'')
                  else if truthy (opt_member error_arg ''message'') then Inr (opt_member error_arg ''message'')
                  else Inr (JStr fallback_message))
           in case detail of
                JArr errors \<Rightarrow>
                  (if length errors > 0 then member (errors ! 0) ''msg'' else after_detail)
              | _ \<Rightarrow> after_detail))"

text \<open>
  The precedence in words, on the fields of the error: the first
  element's \<open>msg\<close> of a non-empty detail array, else a string detail, else the
  response's message, else the error's message, else the fallback. A field "exists"
  when it is truthy.
\<close>

definition error_detail :: "jsval \<Rightarrow> jsval" where
  "error_detail e = opt_member (opt_member (opt_member e ''response'') ''data'') ''detail''"

definition response_message :: "jsval \<Rightarrow> jsval" where
  "response_message e = opt_member (opt_member (opt_member e ''response'') ''data'') ''message''"

definition spec_getErrorMessage :: "jsval \<Rightarrow> jsval" where
  "spec_getErrorMessage e =
     (case error_detail e of
        JArr (first # others) \<Rightarrow> opt_member first ''msg''
      | JArr [] \<Rightarrow>
          (if truthy (response_message e) then response_message e
           else if truthy (opt_member e ''message'') then opt_member e ''message''
           else JStr fallback_message)
      | JStr s \<Rightarrow> JStr s
      | _ \<Rightarrow>
          (if truthy (response_message e) then response_message e
           else if truthy (opt_member e ''message'') then opt_member e ''message''
           else JStr fallback_message))"

text \<open>
  An error whose message fields have the types the function expects: the first
  validation error of a detail array is an object with a string \<open>msg\<close>, and the two
  message fields are strings when they are truthy.
\<close>

definition first_detail_ok :: "jsval \<Rightarrow> bool" where
  "first_detail_ok e =
     (case error_detail e of
        JArr (first # others) \<Rightarrow> \<not> nullish first
      | _ \<Rightarrow> True)"

definition string_fields :: "jsval \<Rightarrow> bool" where
  "string_fields e =
     ((case error_detail e of
         JArr (first # others) \<Rightarrow> is_string (opt_member first ''msg'')
       | _ \<Rightarrow> True) \<and>
      (is_string (response_message e) \<or> \<not> truthy (response_message e)) \<and>
      (is_string (opt_member e ''message'') \<or> \<not> truthy (opt_member e ''message'')))"

section \<open>Ranking of a recommendation response\<close>

record ranked_item =
  item_tender_id :: string
  item_match_score :: real
  item_semantic_similarity :: real

text \<open>
  Modelled from the spec: the matcher's "Rank and paginate" step, which is server code
  and not among the sources. The specification orders items by \<open>match_score\<close>
  descending, ties by \<open>semantic_similarity\<close> descending, then by \<open>tender_id\<close>
  ascending, and returns \<open>limit\<close> items.
\<close>

definition rank_before :: "ranked_item \<Rightarrow> ranked_item \<Rightarrow> bool" where
  "rank_before a b =
     (item_match_score a > item_match_score b \<or>
      (item_match_score a = item_match_score b \<and>
       (item_semantic_similarity a > item_semantic_similarity b \<or>
        (item_semantic_similarity a = item_semantic_similarity b \<and>
         item_tender_id a \<le> item_tender_id b))))"

fun rank_insert :: "ranked_item \<Rightarrow> ranked_item list \<Rightarrow> ranked_item list" where
  "rank_insert x [] = [x]"
| "rank_insert x (y # ys) = (if rank_before x y then x # y # ys else y # rank_insert x ys)"

fun rank_sort :: "ranked_item list \<Rightarrow> ranked_item list" where
  "rank_sort [] = []"
| "rank_sort (x # xs) = rank_insert x (rank_sort xs)"

definition rank_and_paginate :: "nat \<Rightarrow> ranked_item list \<Rightarrow> ranked_item list" where
  "rank_and_paginate n items = take n (rank_sort items)"

section \<open>Theorems\<close>

lemma getScoreLabel_Num:
  "getScoreLabel (Num x) =
     (if 80 \<le> x then ''Excellent Match'' else if 60 \<le> x then ''Good Match''
      else if 40 \<le> x then ''Fair Match'' else ''Low Match'')"
  by (simp add: getScoreLabel_def)

lemma getScoreLabel_NaN: "getScoreLabel NaN = ''Low Match''"
  by (simp add: getScoreLabel_def)

lemma getScoreColor_tier:
  "label_tier (getScoreLabel s) = Some t \<Longrightarrow> getScoreColor s = MATCH_SCORE_COLORS t"
  by (cases s) (auto simp: getScoreLabel_def getScoreColor_def label_tier_def split: if_splits)

lemma getScoreLabel_tier_defined: "label_tier (getScoreLabel s) \<noteq> None"
  by (cases s) (simp_all add: getScoreLabel_def label_tier_def)

lemma getScoreLabel_mono:
  "x \<le> y \<Longrightarrow>
     tier_height (label_tier (getScoreLabel (Num x))) \<le> tier_height (label_tier (getScoreLabel (Num y)))"
  by (simp add: getScoreLabel_Num label_tier_def)

text \<open>
  C10. The score helpers are total and monotone. For every score (\<open>NaN\<close> included)
  \<open>getScoreLabel\<close> returns one of the four labels; on a finite score the label is
  decided by the boundaries 80, 60 and 40, a boundary value falling in the higher
  category; a larger score never gets a lower category; \<open>getScoreColor\<close> is the
  colour of the category \<open>getScoreLabel\<close> names; and \<open>getScoreBadgeClass s\<close>
  contains \<open>getScoreColor s\<close> as a substring.
\<close>

theorem score_helpers_total_monotone:
  "getScoreLabel s \<in> {''Excellent Match'', ''Good Match'', ''Fair Match'', ''Low Match''}
   \<and> (getScoreLabel (Num x) = ''Excellent Match'' \<longleftrightarrow> 80 \<le> x)
   \<and> (getScoreLabel (Num x) = ''Good Match'' \<longleftrightarrow> 60 \<le> x \<and> x < 80)
   \<and> (getScoreLabel (Num x) = ''Fair Match'' \<longleftrightarrow> 40 \<le> x \<and> x < 60)
   \<and> (getScoreLabel (Num x) = ''Low Match'' \<longleftrightarrow> x < 40)
   \<and> (x \<le> y \<longrightarrow>
        tier_height (label_tier (getScoreLabel (Num x)))
          \<le> tier_height (label_tier (getScoreLabel (Num y))))
   \<and> (\<exists>t. label_tier (getScoreLabel s) = Some t \<and> getScoreColor s = MATCH_SCORE_COLORS t)
   \<and> sublist (getScoreColor s) (getScoreBadgeClass s)"
proof -
  have total: "getScoreLabel s \<in> {''Excellent Match'', ''Good Match'', ''Fair Match'', ''Low Match''}"
    by (cases s) (simp_all add: getScoreLabel_Num getScoreLabel_NaN)
  have bounds:
    "getScoreLabel (Num x) = ''Excellent Match'' \<longleftrightarrow> 80 \<le> x"
    "getScoreLabel (Num x) = ''Good Match'' \<longleftrightarrow> 60 \<le> x \<and> x < 80"
    "getScoreLabel (Num x) = ''Fair Match'' \<longleftrightarrow> 40 \<le> x \<and> x < 60"
    "getScoreLabel (Num x) = ''Low Match'' \<longleftrightarrow> x < 40"
    by (simp_all add: getScoreLabel_Num)
  have mono: "x \<le> y \<longrightarrow>
        tier_height (label_tier (getScoreLabel (Num x)))
          \<le> tier_height (label_tier (getScoreLabel (Num y)))"
    using getScoreLabel_mono by blast
  obtain t where t: "label_tier (getScoreLabel s) = Some t"
    using getScoreLabel_tier_defined [of s] by blast
  have colour: "\<exists>t. label_tier (getScoreLabel s) = Some t \<and> getScoreColor s = MATCH_SCORE_COLORS t"
    using t getScoreColor_tier by blast
  have badge: "sublist (getScoreColor s) (getScoreBadgeClass s)"
    unfolding getScoreBadgeClass_def Let_def
    by (metis sublist_appendI append_Nil2 append_assoc)
  from total bounds mono colour badge show ?thesis by blast
qed

theorem score_helpers_total_monotone_witness:
  "getScoreLabel (Num 80) = ''Excellent Match''
   \<and> getScoreLabel (Num 59) = ''Fair Match''
   \<and> tier_height (label_tier (getScoreLabel (Num 59)))
        \<le> tier_height (label_tier (getScoreLabel (Num 80)))
   \<and> sublist (getScoreColor (Num 80)) (getScoreBadgeClass (Num 80))"
  using score_helpers_total_monotone [of "Num 80" 59 80]
  by (simp add: getScoreLabel_Num)

lemma isStep1Valid_unfolded:
  "isStep1Valid d \<longleftrightarrow>
     truthy_string (primary_sector d) \<and>
     (\<exists>a. active_sectors d = Some a \<and> 1 \<le> length a \<and> length a \<le> 5) \<and>
     sub_sectors d \<noteq> None \<and>
     (\<exists>r. preferred_regions d = Some r \<and> 1 \<le> length r) \<and>
     (\<exists>k. step1_keywords d = Some k \<and> 3 \<le> length k \<and> length k \<le> 10)"
  by (cases "sub_sectors d") (auto simp: isStep1Valid_def split: option.splits)

lemma spec_tier1_bounds_accepted: "spec_tier1_bounds d \<Longrightarrow> isStep1Valid d"
  by (auto simp: isStep1Valid_unfolded spec_tier1_bounds_def split: option.splits)

text \<open>
  C2. Step-1 validation accepts a draft if and only if it meets the Tier-1 bounds:
  a non-empty primary sector, 1 to 5 active sectors, 1 to 5 preferred regions, 3 to
  10 keywords, and sub-sectors present. Every draft within the bounds is accepted
  (\<open>spec_tier1_bounds_accepted\<close>), but \<open>isStep1Valid\<close> compares the number of
  preferred regions with \<open>VALIDATION.REGIONS.MIN\<close> only, never with
  \<open>VALIDATION.REGIONS.MAX\<close> as it does for active sectors and keywords: a draft with
  six preferred regions is accepted although it is outside the bounds.
\<close>

theorem isStep1Valid_six_regions:
  "isStep1Valid
     \<lparr> primary_sector = Some ''Construction'',
       active_sectors = Some [''Construction''],
       sub_sectors = Some [],
       preferred_regions =
         Some [''Addis Ababa'', ''Oromia'', ''Amhara'', ''Tigray'', ''Sidama'', ''Afar''],
       step1_keywords = Some [''roads'', ''bridges'', ''buildings''] \<rparr>
   \<and> \<not> spec_tier1_bounds
     \<lparr> primary_sector = Some ''Construction'',
       active_sectors = Some [''Construction''],
       sub_sectors = Some [],
       preferred_regions =
         Some [''Addis Ababa'', ''Oromia'', ''Amhara'', ''Tigray'', ''Sidama'', ''Afar''],
       step1_keywords = Some [''roads'', ''bridges'', ''buildings''] \<rparr>"
  by (simp add: isStep1Valid_def spec_tier1_bounds_def)

lemma RecommendationCard_marker:
  "urgency_marker_shown r \<longleftrightarrow>
     truthy_string (deadline (tender r)) \<and>
     le_num (days_until_deadline r) 7 \<and> \<not> lt_num (days_until_deadline r) 0"
  by (simp add: urgency_marker_shown_def RecommendationCard_deadline_def Let_def)

text \<open>
  C6 (as amended). For every recommendation whose tender has a deadline, the urgency
  marker of the recommendation card is rendered exactly when \<open>days_until_deadline\<close>
  lies in \<open>[0,7]\<close>: the card marks every tender that is due within seven days and
  not expired, the one due today included; a negative or larger value, or \<open>NaN\<close>,
  carries no marker.
\<close>

theorem urgency_marker_window:
  "truthy_string (deadline (tender r)) \<Longrightarrow>
     urgency_marker_shown r \<longleftrightarrow>
       ge_num (days_until_deadline r) 0 \<and> le_num (days_until_deadline r) 7"
  by (cases "days_until_deadline r") (auto simp: RecommendationCard_marker)

theorem urgency_marker_window_witness:
  "truthy_string (Some ''2026-01-10'')
   \<and> urgency_marker_shown
       \<lparr> tender = \<lparr> tender_id = ''t7'', title = ''Road works'', deadline = Some ''2026-01-10'' \<rparr>,
         match_score = Num 72, semantic_similarity = Num (1 / 2),
         days_until_deadline = Num 7 \<rparr>
   \<and> \<not> urgency_marker_shown
       \<lparr> tender = \<lparr> tender_id = ''t8'', title = ''Road works'', deadline = Some ''2026-01-11'' \<rparr>,
         match_score = Num 72, semantic_similarity = Num (1 / 2),
         days_until_deadline = Num 8 \<rparr>"
  using
    urgency_marker_window [of
       "\<lparr> tender = \<lparr> tender_id = ''t7'', title = ''Road works'', deadline = Some ''2026-01-10'' \<rparr>,
         match_score = Num 72, semantic_similarity = Num (1 / 2),
         days_until_deadline = Num 7 \<rparr>"]
    urgency_marker_window [of
       "\<lparr> tender = \<lparr> tender_id = ''t8'', title = ''Road works'', deadline = Some ''2026-01-11'' \<rparr>,
         match_score = Num 72, semantic_similarity = Num (1 / 2),
         days_until_deadline = Num 8 \<rparr>"]
  by simp

theorem urgency_marker_due_today_counterexample:
  "urgency_marker_shown
     \<lparr> tender = \<lparr> tender_id = ''t0'', title = ''Road works'', deadline = Some ''2026-01-03'' \<rparr>,
       match_score = Num 72, semantic_similarity = Num (1 / 2),
       days_until_deadline = Num 0 \<rparr>
   \<and> \<not> spec_urgency_window (Num 0)"
  by (simp add: RecommendationCard_marker spec_urgency_window_def)

lemma MatchReason_type_lookups:
  "tag \<in> set MatchReason_type \<Longrightarrow>
     map_of REASON_TYPE_ICONS tag \<noteq> None \<and> map_of REASON_TYPE_LABELS tag \<noteq> None"
  by (auto simp: MatchReason_type_def REASON_TYPE_ICONS_def REASON_TYPE_LABELS_def)

lemma CompactView_defined:
  "list_all (\<lambda>r. reason_type r \<in> set MatchReason_type) reasons \<Longrightarrow>
     list_all (\<lambda>p. pill_icon p \<noteq> None \<and> pill_label p \<noteq> None) (CompactView reasons showWeights)"
  using MatchReason_type_lookups by (induction reasons) (simp_all add: CompactView_def)

text \<open>
  C5 (as amended). The MatchReason type admits seven of the specification's eleven
  tags: semantic_match, sector_match, subsector_match, keyword_match, region_match,
  budget_match and urgency. For each of these seven, \<open>REASON_TYPE_ICONS[tag]\<close> and
  \<open>REASON_TYPE_LABELS[tag]\<close> are defined, so every pill that \<open>CompactView\<close> renders
  for reasons of that type has its icon and its label. The four other tags
  (certification_match, language_match, deadline_match, popularity_boost) are not
  members of the type and have no entry in either table.
\<close>

theorem MatchReason_tags_rendered:
  "(tag \<in> set MatchReason_type \<longrightarrow>
      map_of REASON_TYPE_ICONS tag \<noteq> None \<and> map_of REASON_TYPE_LABELS tag \<noteq> None)
   \<and> (list_all (\<lambda>r. reason_type r \<in> set MatchReason_type) reasons \<longrightarrow>
        list_all (\<lambda>p. pill_icon p \<noteq> None \<and> pill_label p \<noteq> None)
          (CompactView reasons showWeights))
   \<and> set MatchReason_type \<subseteq> set spec_MatchReason_tags
   \<and> set spec_MatchReason_tags - set MatchReason_type =
        {''certification_match'', ''language_match'', ''deadline_match'', ''popularity_boost''}
   \<and> (tag \<in> set spec_MatchReason_tags - set MatchReason_type \<longrightarrow>
        map_of REASON_TYPE_ICONS tag = None \<and> map_of REASON_TYPE_LABELS tag = None)"
proof -
  have sub: "set MatchReason_type \<subseteq> set spec_MatchReason_tags"
    by (simp add: MatchReason_type_def spec_MatchReason_tags_def)
  have rest: "set spec_MatchReason_tags - set MatchReason_type =
        {''certification_match'', ''language_match'', ''deadline_match'', ''popularity_boost''}"
    by (auto simp: MatchReason_type_def spec_MatchReason_tags_def)
  have none: "tag \<in> set spec_MatchReason_tags - set MatchReason_type \<longrightarrow>
        map_of REASON_TYPE_ICONS tag = None \<and> map_of REASON_TYPE_LABELS tag = None"
    unfolding rest by (auto simp: REASON_TYPE_ICONS_def REASON_TYPE_LABELS_def)
  show ?thesis
    using MatchReason_type_lookups [of tag] CompactView_defined [of reasons showWeights] sub rest none
    by blast
qed

theorem MatchReason_tags_rendered_witness:
  "''urgency'' \<in> set MatchReason_type
   \<and> map_of REASON_TYPE_ICONS ''urgency'' \<noteq> None
   \<and> map_of REASON_TYPE_LABELS ''urgency'' \<noteq> None
   \<and> list_all (\<lambda>p. pill_icon p \<noteq> None \<and> pill_label p \<noteq> None)
       (CompactView
          [\<lparr> reason_type = ''urgency'', category = ''Deadline'',
             reason_text = ''Closes in 2 days'', weight = 5 \<rparr>] True)"
  using MatchReason_tags_rendered [of "''urgency''"
      "[\<lparr> reason_type = ''urgency'', category = ''Deadline'',
             reason_text = ''Closes in 2 days'', weight = 5 \<rparr>]" True]
  by (simp add: MatchReason_type_def)

theorem MatchReason_certification_counterexample:
  "''certification_match'' \<in> set spec_MatchReason_tags
   \<and> ''certification_match'' \<notin> set MatchReason_type
   \<and> map_of REASON_TYPE_ICONS ''certification_match'' = None
   \<and> map_of REASON_TYPE_LABELS ''certification_match'' = None"
  by (simp add: spec_MatchReason_tags_def MatchReason_type_def REASON_TYPE_ICONS_def
      REASON_TYPE_LABELS_def)

lemma forEach_append_eq: "forEach_append params name ss = params @ map (Pair name) ss"
  by (induction ss arbitrary: params) (simp_all add: append_param_def)

lemma getAll_append: "getAll (xs @ ys) name = getAll xs name @ getAll ys name"
  by (simp add: getAll_def)

lemma getAll_Nil: "getAll [] name = []"
  by (simp add: getAll_def)

lemma getAll_Cons:
  "getAll ((k, v) # params) name = (if k = name then v # getAll params name else getAll params name)"
  by (simp add: getAll_def)

lemma getAll_same: "getAll (map (Pair name) ss) name = ss"
  by (induction ss) (simp_all add: getAll_def)

lemma getAll_other: "k \<noteq> name \<Longrightarrow> getAll (map (Pair k) ss) name = []"
  by (induction ss) (simp_all add: getAll_def)

lemma getRecommendations_params_eq:
  "getRecommendations_params filters =
     [(''limit'', toString (case limit filters of None \<Rightarrow> 20 | Some l \<Rightarrow> l))]
     @ (case min_score filters of None \<Rightarrow> [] | Some m \<Rightarrow> [(''min_score'', toString m)])
     @ [(''days_ahead'', toString (case days_ahead filters of None \<Rightarrow> 7 | Some d \<Rightarrow> d))]
     @ map (Pair ''sectors'') (case sectors filters of None \<Rightarrow> [] | Some ss \<Rightarrow> ss)
     @ map (Pair ''regions'') (case regions filters of None \<Rightarrow> [] | Some rs \<Rightarrow> rs)"
  by (simp add: getRecommendations_params_def Let_def append_param_def forEach_append_eq
      split: option.splits)

lemma toString_20: "toString 20 = ''20''"
  by code_simp

lemma toString_7: "toString 7 = ''7''"
  by code_simp

text \<open>
  C1 (as amended). The request of \<open>getRecommendations\<close> is one GET to
  \<open>/recommendations\<close> whose query carries: exactly one \<open>limit\<close>, equal to 20 when
  \<open>filters.limit\<close> is absent and to the caller's value, unchanged and unbounded,
  otherwise; exactly one \<open>days_ahead\<close>, equal to 7 when absent; \<open>min_score\<close> if and
  only if the caller supplied it; and every element of \<open>filters.sectors\<close> and of
  \<open>filters.regions\<close>, in order, as repeated parameters.
\<close>

theorem getRecommendations_query:
  "snd (getRecommendations server e filters sent) = sent @ [getRecommendations_request e filters]
   \<and> req_method (getRecommendations_request e filters) = GET
   \<and> req_url (getRecommendations_request e filters) = API_URL e @ ''/recommendations''
   \<and> getAll (req_params (getRecommendations_request e filters)) ''limit'' =
        (case limit filters of None \<Rightarrow> [''20''] | Some l \<Rightarrow> [toString l])
   \<and> getAll (req_params (getRecommendations_request e filters)) ''days_ahead'' =
        (case days_ahead filters of None \<Rightarrow> [''7''] | Some d \<Rightarrow> [toString d])
   \<and> getAll (req_params (getRecommendations_request e filters)) ''min_score'' =
        (case min_score filters of None \<Rightarrow> [] | Some m \<Rightarrow> [toString m])
   \<and> getAll (req_params (getRecommendations_request e filters)) ''sectors'' =
        (case sectors filters of None \<Rightarrow> [] | Some ss \<Rightarrow> ss)
   \<and> getAll (req_params (getRecommendations_request e filters)) ''regions'' =
        (case regions filters of None \<Rightarrow> [] | Some rs \<Rightarrow> rs)"
proof -
  have sent: "snd (getRecommendations server e filters sent) = sent @ [getRecommendations_request e filters]"
    by (simp add: getRecommendations_def axios_call_def split: sum.splits)
  have params:
    "req_params (getRecommendations_request e filters) = getRecommendations_params filters"
    by (simp add: getRecommendations_request_def)
  have rq: "req_method (getRecommendations_request e filters) = GET"
    "req_url (getRecommendations_request e filters) = API_URL e @ ''/recommendations''"
    by (simp_all add: getRecommendations_request_def)
  have q1: "getAll (getRecommendations_params filters) ''limit'' =
        (case limit filters of None \<Rightarrow> [''20''] | Some l \<Rightarrow> [toString l])"
    by (simp add: getRecommendations_params_eq getAll_append getAll_Cons getAll_Nil getAll_other
        toString_20 split: option.splits)
  have q2: "getAll (getRecommendations_params filters) ''days_ahead'' =
        (case days_ahead filters of None \<Rightarrow> [''7''] | Some d \<Rightarrow> [toString d])"
    by (simp add: getRecommendations_params_eq getAll_append getAll_Cons getAll_Nil getAll_other
        toString_7 split: option.splits)
  have q3: "getAll (getRecommendations_params filters) ''min_score'' =
        (case min_score filters of None \<Rightarrow> [] | Some m \<Rightarrow> [toString m])"
    by (simp add: getRecommendations_params_eq getAll_append getAll_Cons getAll_Nil getAll_other
        split: option.splits)
  have q4: "getAll (getRecommendations_params filters) ''sectors'' =
        (case sectors filters of None \<Rightarrow> [] | Some ss \<Rightarrow> ss)"
    by (simp add: getRecommendations_params_eq getAll_append getAll_Cons getAll_Nil getAll_other
        getAll_same split: option.splits)
  have q5: "getAll (getRecommendations_params filters) ''regions'' =
        (case regions filters of None \<Rightarrow> [] | Some rs \<Rightarrow> rs)"
    by (simp add: getRecommendations_params_eq getAll_append getAll_Cons getAll_Nil getAll_other
        getAll_same split: option.splits)
  from sent rq q1 q2 q3 q4 q5 show ?thesis
    unfolding params by blast
qed

theorem getRecommendations_query_witness:
  "getAll (req_params (getRecommendations_request
       \<lparr> API_URL = ''http://localhost:8000/api/v1'', window_defined = True, access_token = None \<rparr>
       \<lparr> limit = None, min_score = Some 50, days_ahead = None,
         sectors = Some [''IT'', ''Construction''], regions = None \<rparr>)) ''limit'' = [''20'']
   \<and> getAll (req_params (getRecommendations_request
       \<lparr> API_URL = ''http://localhost:8000/api/v1'', window_defined = True, access_token = None \<rparr>
       \<lparr> limit = None, min_score = Some 50, days_ahead = None,
         sectors = Some [''IT'', ''Construction''], regions = None \<rparr>)) ''sectors'' =
       [''IT'', ''Construction'']"
  using getRecommendations_query [of "\<lambda>rq. Inl (Other_value []) :: thrown + unit response"
      "\<lparr> API_URL = ''http://localhost:8000/api/v1'', window_defined = True, access_token = None \<rparr>"
      "\<lparr> limit = None, min_score = Some 50, days_ahead = None,
         sectors = Some [''IT'', ''Construction''], regions = None \<rparr>" "[]"]
  by simp

theorem getRecommendations_limit_counterexample:
  "getAll (getRecommendations_params
       \<lparr> limit = Some 500, min_score = None, days_ahead = None, sectors = None, regions = None \<rparr>)
     ''limit'' = [''500'']
   \<and> (500::int) > 100"
  by code_simp

text \<open>
  C7. \<open>submitFeedback\<close> issues exactly one request, a POST to
  \<open>/recommendations/feedback/{tender_id}\<close> whose body is the feedback object as given
  (its \<open>interaction_type\<close> and, when supplied, \<open>feedback_reason\<close> and
  \<open>time_spent_seconds\<close>); it returns the data of the response unchanged, and a
  rejection of the request is passed on to the caller.
\<close>

theorem submitFeedback_one_post:
  "\<exists>rq. snd (submitFeedback server e tenderId feedback sent) = sent @ [rq]
       \<and> req_method rq = POST
       \<and> req_url rq = API_URL e @ ''/recommendations/feedback/'' @ tenderId
       \<and> req_body rq = Some feedback
       \<and> fst (submitFeedback server e tenderId feedback sent) = map_sum (\<lambda>err. err) data (server rq)"
proof -
  let ?rq = "submitFeedback_request e tenderId feedback"
  have "snd (submitFeedback server e tenderId feedback sent) = sent @ [?rq]"
    by (simp add: submitFeedback_def axios_call_def split: sum.splits)
  moreover have "fst (submitFeedback server e tenderId feedback sent) = map_sum (\<lambda>err. err) data (server ?rq)"
    by (simp add: submitFeedback_def axios_call_def split: sum.splits)
  moreover have "req_method ?rq = POST"
    "req_url ?rq = API_URL e @ ''/recommendations/feedback/'' @ tenderId"
    "req_body ?rq = Some feedback"
    by (simp_all add: submitFeedback_request_def)
  ultimately show ?thesis by blast
qed

lemma useFeedback_submitFeedback_rejects:
  assumes "server (submitFeedback_request e tenderId
              \<lparr> interaction_type = ty, feedback_reason = fr, time_spent_seconds = ts \<rparr>) = Inl err"
  shows "fst (useFeedback_submitFeedback server e tenderId ty fr ts st)
           = Inl (as_Error err ''Failed to submit feedback'')"
    and "savedTenders (snd (useFeedback_submitFeedback server e tenderId ty fr ts st)) = savedTenders st"
    and "dismissedTenders (snd (useFeedback_submitFeedback server e tenderId ty fr ts st))
           = dismissedTenders st"
  using assms
  by (simp_all add: useFeedback_submitFeedback_def submitFeedback_def axios_call_def Let_def)

lemma saveTender_rejects:
  assumes "server (submitFeedback_request e tenderId
              \<lparr> interaction_type = save, feedback_reason = None, time_spent_seconds = None \<rparr>) = Inl err"
  shows "fst (saveTender server e tenderId st) = Inl (as_Error err ''Failed to submit feedback'')"
    and "savedTenders (snd (saveTender server e tenderId st)) = savedTenders st - {tenderId}"
    and "dismissedTenders (snd (saveTender server e tenderId st)) = dismissedTenders st"
  using assms
  by (simp_all add: saveTender_def useFeedback_submitFeedback_def submitFeedback_def
      axios_call_def Let_def)

lemma dismissTender_rejects:
  assumes "server (submitFeedback_request e tenderId
              \<lparr> interaction_type = dismiss, feedback_reason = why, time_spent_seconds = None \<rparr>) = Inl err"
  shows "fst (dismissTender server e tenderId why st) = Inl (as_Error err ''Failed to submit feedback'')"
    and "dismissedTenders (snd (dismissTender server e tenderId why st)) = dismissedTenders st - {tenderId}"
    and "savedTenders (snd (dismissTender server e tenderId why st)) = savedTenders st"
  using assms
  by (simp_all add: dismissTender_def useFeedback_submitFeedback_def submitFeedback_def
      axios_call_def Let_def)

text \<open>
  C8 (as amended). When the feedback submission rejects, \<open>saveTender\<close> (respectively
  \<open>dismissTender\<close>) ends with the tender id removed from \<open>savedTenders\<close>
  (respectively \<open>dismissedTenders\<close>), so the set equals its value before the call
  whenever the id was not already in it, which is how the feedback buttons call the
  two functions; the other set is untouched; and the caller receives the rejection,
  as the \<open>Error\<close> it was or wrapped in a new \<open>Error\<close>.
\<close>

theorem tender_actions_rollback:
  "(server (submitFeedback_request e tenderId
       \<lparr> interaction_type = save, feedback_reason = None, time_spent_seconds = None \<rparr>) = Inl err
     \<longrightarrow> fst (saveTender server e tenderId st) = Inl (as_Error err ''Failed to submit feedback'')
       \<and> savedTenders (snd (saveTender server e tenderId st)) = savedTenders st - {tenderId}
       \<and> dismissedTenders (snd (saveTender server e tenderId st)) = dismissedTenders st
       \<and> (tenderId \<notin> savedTenders st
            \<longrightarrow> savedTenders (snd (saveTender server e tenderId st)) = savedTenders st))
   \<and> (server (submitFeedback_request e tenderId
       \<lparr> interaction_type = dismiss, feedback_reason = why, time_spent_seconds = None \<rparr>) = Inl err
     \<longrightarrow> fst (dismissTender server e tenderId why st) = Inl (as_Error err ''Failed to submit feedback'')
       \<and> dismissedTenders (snd (dismissTender server e tenderId why st)) = dismissedTenders st - {tenderId}
       \<and> savedTenders (snd (dismissTender server e tenderId why st)) = savedTenders st
       \<and> (tenderId \<notin> dismissedTenders st
            \<longrightarrow> dismissedTenders (snd (dismissTender server e tenderId why st)) = dismissedTenders st))"
  using saveTender_rejects [of server e tenderId err st]
    dismissTender_rejects [of server e tenderId why err st]
  by auto

theorem tender_actions_rollback_witness:
  "fst (saveTender (\<lambda>rq. Inl (Error_instance ''Network Error'') :: thrown + FeedbackResponse response)
         \<lparr> API_URL = ''/api/v1'', window_defined = True, access_token = Some ''tok'' \<rparr> ''t2''
         \<lparr> loading = False, error = None, savedTenders = {''t1''}, dismissedTenders = {},
           requests = [] \<rparr>) = Inl (Error_instance ''Network Error'')
   \<and> savedTenders (snd (saveTender (\<lambda>rq. Inl (Error_instance ''Network Error'') :: thrown + FeedbackResponse response)
         \<lparr> API_URL = ''/api/v1'', window_defined = True, access_token = Some ''tok'' \<rparr> ''t2''
         \<lparr> loading = False, error = None, savedTenders = {''t1''}, dismissedTenders = {},
           requests = [] \<rparr>)) = {''t1''}
   \<and> dismissedTenders (snd (dismissTender (\<lambda>rq. Inl (Other_value ''timeout'') :: thrown + FeedbackResponse response)
         \<lparr> API_URL = ''/api/v1'', window_defined = True, access_token = Some ''tok'' \<rparr> ''t2'' None
         \<lparr> loading = False, error = None, savedTenders = {''t1''}, dismissedTenders = {},
           requests = [] \<rparr>)) = {}"
  using
    tender_actions_rollback [of
       "\<lambda>rq. Inl (Error_instance ''Network Error'') :: thrown + FeedbackResponse response"
       "\<lparr> API_URL = ''/api/v1'', window_defined = True, access_token = Some ''tok'' \<rparr>" "''t2''"
       "Error_instance ''Network Error''"
       "\<lparr> loading = False, error = None, savedTenders = {''t1''}, dismissedTenders = {},
           requests = [] \<rparr>" None]
    tender_actions_rollback [of
       "\<lambda>rq. Inl (Other_value ''timeout'') :: thrown + FeedbackResponse response"
       "\<lparr> API_URL = ''/api/v1'', window_defined = True, access_token = Some ''tok'' \<rparr>" "''t2''"
       "Other_value ''timeout''"
       "\<lparr> loading = False, error = None, savedTenders = {''t1''}, dismissedTenders = {},
           requests = [] \<rparr>" None]
  by simp

theorem saveTender_already_saved_counterexample:
  "savedTenders (snd (saveTender (\<lambda>rq. Inl (Error_instance ''Network Error'') :: thrown + FeedbackResponse response)
         \<lparr> API_URL = ''/api/v1'', window_defined = True, access_token = Some ''tok'' \<rparr> ''t1''
         \<lparr> loading = False, error = None, savedTenders = {''t1''}, dismissedTenders = {},
           requests = [] \<rparr>)) = {}
   \<and> savedTenders \<lparr> loading = False, error = None, savedTenders = {''t1''}, dismissedTenders = {},
           requests = [] \<rparr> = {''t1''}"
  by (simp add: saveTender_def useFeedback_submitFeedback_def submitFeedback_def
      axios_call_def Let_def)

















lemma member_ok: "\<not> nullish v \<Longrightarrow> member v name = Inr (opt_member v name)"
  by (simp add: member_def)

lemma getErrorMessage_nullish: "nullish e \<Longrightarrow> getErrorMessage e = Inl TypeError"
  by (simp add: getErrorMessage_def member_def)

lemma getErrorMessage_spec:
  assumes "\<not> nullish e" and "first_detail_ok e"
  shows "getErrorMessage e = Inr (spec_getErrorMessage e)"
proof (cases "error_detail e")
  case (JArr errors)
  show ?thesis
  proof (cases errors)
    case Nil
    with JArr assms show ?thesis
      by (simp add: getErrorMessage_def spec_getErrorMessage_def member_ok Let_def
          error_detail_def response_message_def)
  next
    case (Cons first others)
    with JArr assms show ?thesis
      by (simp add: getErrorMessage_def spec_getErrorMessage_def member_ok Let_def
          error_detail_def response_message_def first_detail_ok_def)
  qed
qed (use assms in \<open>simp_all add: getErrorMessage_def spec_getErrorMessage_def member_ok Let_def
          error_detail_def response_message_def\<close>)

lemma spec_getErrorMessage_string:
  "string_fields e \<Longrightarrow> is_string (spec_getErrorMessage e)"
  by (auto simp: string_fields_def spec_getErrorMessage_def split: jsval.splits list.splits)

lemma is_string_iff: "is_string v \<longleftrightarrow> (\<exists>s. v = JStr s)"
  by (cases v) simp_all

text \<open>
  C9 (as amended). For every input other than \<open>null\<close> and \<open>undefined\<close> whose detail
  array, if non-empty, starts with an element other than \<open>null\<close> and \<open>undefined\<close>,
  \<open>getErrorMessage\<close> returns, and by a fixed precedence: the first element's \<open>msg\<close>
  of a non-empty detail array, else a string detail, else the response's message if
  truthy, else the error's message if truthy, else the fallback; an empty detail
  array falls through to the later cases. The result is a string whenever that
  \<open>msg\<close> and the truthy message fields are strings.
\<close>

theorem getErrorMessage_precedence:
  "\<not> nullish e \<Longrightarrow> first_detail_ok e \<Longrightarrow>
     getErrorMessage e = Inr (spec_getErrorMessage e)
     \<and> (string_fields e \<longrightarrow> (\<exists>s. getErrorMessage e = Inr (JStr s)))
     \<and> (error_detail e = JArr [] \<longrightarrow>
          getErrorMessage e =
            Inr (if truthy (response_message e) then response_message e
                 else if truthy (opt_member e ''message'') then opt_member e ''message''
                 else JStr fallback_message))"
proof -
  assume e: "\<not> nullish e" "first_detail_ok e"
  have eq: "getErrorMessage e = Inr (spec_getErrorMessage e)"
    using e by (rule getErrorMessage_spec)
  have str: "string_fields e \<longrightarrow> (\<exists>s. getErrorMessage e = Inr (JStr s))"
    using spec_getErrorMessage_string [of e] by (auto simp: eq is_string_iff)
  have empty: "error_detail e = JArr [] \<longrightarrow>
          getErrorMessage e =
            Inr (if truthy (response_message e) then response_message e
                 else if truthy (opt_member e ''message'') then opt_member e ''message''
                 else JStr fallback_message)"
    by (simp add: eq spec_getErrorMessage_def)
  from eq str empty show ?thesis by blast
qed

theorem getErrorMessage_precedence_witness:
  "getErrorMessage
     (JObj [(''message'', JStr ''Request failed with status code 422''),
            (''response'', JObj [(''data'', JObj [(''detail'',
               JArr [JObj [(''loc'', JArr [JStr ''body'']), (''msg'', JStr ''field required'')]])])])])
     = Inr (JStr ''field required'')
   \<and> getErrorMessage
     (JObj [(''message'', JStr ''Request failed with status code 400''),
            (''response'', JObj [(''data'', JObj [(''detail'', JArr []),
                                                  (''message'', JStr ''Bad request'')])])])
     = Inr (JStr ''Bad request'')"
  using
    getErrorMessage_precedence [of
      "JObj [(''message'', JStr ''Request failed with status code 422''),
            (''response'', JObj [(''data'', JObj [(''detail'',
               JArr [JObj [(''loc'', JArr [JStr ''body'']), (''msg'', JStr ''field required'')]])])])]"]
    getErrorMessage_precedence [of
      "JObj [(''message'', JStr ''Request failed with status code 400''),
            (''response'', JObj [(''data'', JObj [(''detail'', JArr []),
                                                  (''message'', JStr ''Bad request'')])])]"]
  by (simp add: first_detail_ok_def error_detail_def response_message_def spec_getErrorMessage_def)

theorem getErrorMessage_total_counterexample:
  "getErrorMessage JNull = Inl TypeError
   \<and> getErrorMessage
       (JObj [(''response'', JObj [(''data'', JObj [(''detail'', JArr [JObj []])])])])
     = Inr JUndefined"
  by (simp add: getErrorMessage_def member_def Let_def)

lemma rank_before_total: "rank_before a b \<or> rank_before b a"
  by (auto simp: rank_before_def)

lemma rank_before_trans: "rank_before a b \<Longrightarrow> rank_before b c \<Longrightarrow> rank_before a c"
  by (auto simp: rank_before_def)

lemma set_rank_insert: "set (rank_insert x xs) = insert x (set xs)"
  by (induction xs) auto

lemma length_rank_insert: "length (rank_insert x xs) = Suc (length xs)"
  by (induction xs) auto

lemma set_rank_sort: "set (rank_sort xs) = set xs"
  by (induction xs) (simp_all add: set_rank_insert)

lemma length_rank_sort: "length (rank_sort xs) = length xs"
  by (induction xs) (simp_all add: length_rank_insert)

lemma sorted_rank_insert:
  "sorted_wrt rank_before xs \<Longrightarrow> sorted_wrt rank_before (rank_insert x xs)"
proof (induction xs)
  case Nil
  then show ?case by simp
next
  case (Cons y ys)
  show ?case
  proof (cases "rank_before x y")
    case True
    then have "\<forall>z \<in> set ys. rank_before x z"
      using Cons.prems rank_before_trans by auto
    with True Cons.prems show ?thesis by simp
  next
    case False
    then have yx: "rank_before y x"
      using rank_before_total by blast
    with False Cons show ?thesis
      by (auto simp: set_rank_insert)
  qed
qed

lemma sorted_rank_sort: "sorted_wrt rank_before (rank_sort xs)"
  by (induction xs) (simp_all add: sorted_rank_insert)

lemma sorted_rank_and_paginate: "sorted_wrt rank_before (rank_and_paginate n items)"
  unfolding rank_and_paginate_def by (rule sorted_wrt_take [OF sorted_rank_sort])

text \<open>
  C3. In every recommendation response the items are non-increasing in
  \<open>match_score\<close>; of two items with equal \<open>match_score\<close> the one with the larger
  \<open>semantic_similarity\<close> comes first; and of two items equal in both the one with the
  smaller \<open>tender_id\<close> comes first. The response holds the first \<open>limit\<close> items of
  that order, all of them candidates.
\<close>

theorem response_ordering:
  "i < j \<Longrightarrow> j < length (rank_and_paginate n items) \<Longrightarrow>
     item_match_score (rank_and_paginate n items ! i) \<ge> item_match_score (rank_and_paginate n items ! j)
     \<and> (item_match_score (rank_and_paginate n items ! i) = item_match_score (rank_and_paginate n items ! j)
          \<longrightarrow> item_semantic_similarity (rank_and_paginate n items ! i)
                \<ge> item_semantic_similarity (rank_and_paginate n items ! j))
     \<and> (item_match_score (rank_and_paginate n items ! i) = item_match_score (rank_and_paginate n items ! j)
          \<and> item_semantic_similarity (rank_and_paginate n items ! i)
                = item_semantic_similarity (rank_and_paginate n items ! j)
          \<longrightarrow> item_tender_id (rank_and_paginate n items ! i) \<le> item_tender_id (rank_and_paginate n items ! j))
     \<and> length (rank_and_paginate n items) = min n (length items)
     \<and> set (rank_and_paginate n items) \<subseteq> set items"
proof -
  assume ij: "i < j" "j < length (rank_and_paginate n items)"
  have "rank_before (rank_and_paginate n items ! i) (rank_and_paginate n items ! j)"
    using sorted_rank_and_paginate [of n items] ij by (simp add: sorted_wrt_iff_nth_less)
  moreover have "length (rank_and_paginate n items) = min n (length items)"
    by (simp add: rank_and_paginate_def length_rank_sort min.commute)
  moreover have "set (rank_and_paginate n items) \<subseteq> set items"
    unfolding rank_and_paginate_def using set_take_subset [of n "rank_sort items"]
    by (simp add: set_rank_sort)
  ultimately show ?thesis
    by (auto simp: rank_before_def)
qed

lemma rank_and_paginate_example:
  "rank_and_paginate 2
     [\<lparr> item_tender_id = ''t3'', item_match_score = 70, item_semantic_similarity = 1 / 2 \<rparr>,
      \<lparr> item_tender_id = ''t2'', item_match_score = 85, item_semantic_similarity = 3 / 5 \<rparr>,
      \<lparr> item_tender_id = ''t1'', item_match_score = 85, item_semantic_similarity = 4 / 5 \<rparr>]
   = [\<lparr> item_tender_id = ''t1'', item_match_score = 85, item_semantic_similarity = 4 / 5 \<rparr>,
      \<lparr> item_tender_id = ''t2'', item_match_score = 85, item_semantic_similarity = 3 / 5 \<rparr>]"
  by (simp add: rank_and_paginate_def rank_before_def)

theorem response_ordering_witness:
  "(0::nat) < 1
   \<and> 1 < length (rank_and_paginate 2
     [\<lparr> item_tender_id = ''t3'', item_match_score = 70, item_semantic_similarity = 1 / 2 \<rparr>,
      \<lparr> item_tender_id = ''t2'', item_match_score = 85, item_semantic_similarity = 3 / 5 \<rparr>,
      \<lparr> item_tender_id = ''t1'', item_match_score = 85, item_semantic_similarity = 4 / 5 \<rparr>])
   \<and> item_semantic_similarity (rank_and_paginate 2
     [\<lparr> item_tender_id = ''t3'', item_match_score = 70, item_semantic_similarity = 1 / 2 \<rparr>,
      \<lparr> item_tender_id = ''t2'', item_match_score = 85, item_semantic_similarity = 3 / 5 \<rparr>,
      \<lparr> item_tender_id = ''t1'', item_match_score = 85, item_semantic_similarity = 4 / 5 \<rparr>] ! 0)
     \<ge> item_semantic_similarity (rank_and_paginate 2
     [\<lparr> item_tender_id = ''t3'', item_match_score = 70, item_semantic_similarity = 1 / 2 \<rparr>,
      \<lparr> item_tender_id = ''t2'', item_match_score = 85, item_semantic_similarity = 3 / 5 \<rparr>,
      \<lparr> item_tender_id = ''t1'', item_match_score = 85, item_semantic_similarity = 4 / 5 \<rparr>] ! 1)"
  using response_ordering [of 0 1 2
     "[\<lparr> item_tender_id = ''t3'', item_match_score = 70, item_semantic_similarity = 1 / 2 \<rparr>,
      \<lparr> item_tender_id = ''t2'', item_match_score = 85, item_semantic_similarity = 3 / 5 \<rparr>,
      \<lparr> item_tender_id = ''t1'', item_match_score = 85, item_semantic_similarity = 4 / 5 \<rparr>]"]
  by (simp add: rank_and_paginate_example)

end
